theory Spec2Isabelle
  imports Main "HOL-Library.Sublist"
begin

section \<open>Text primitives of the Python runtime\<close>

text \<open>
  File contents are the decoded text of a file, a \<^typ>\<open>string\<close> whose line terminator is
  the line feed character. Iterating over a text file, and \<open>readlines()\<close>, cut the text after
  every line feed and keep the terminator on each line; a last line without terminator is kept
  as it is, and no line is ever empty.
\<close>

abbreviation NL :: char where
  "NL \<equiv> CHR 0x0A"

fun readlines :: "string \<Rightarrow> string list" where
  "readlines [] = []"
| "readlines (c # cs) =
     (if c = NL then [c] # readlines cs
      else (case readlines cs of [] \<Rightarrow> [[c]] | l # ls \<Rightarrow> (c # l) # ls))"

text \<open>
  \<open>s.find(sub)\<close>: the lowest index at which \<open>sub\<close> starts in \<open>s\<close>, or \<open>-1\<close>.
\<close>

fun str_find_from :: "nat \<Rightarrow> string \<Rightarrow> string \<Rightarrow> int" where
  "str_find_from i [] sub = (if sub = [] then int i else - 1)"
| "str_find_from i (c # cs) sub =
     (if prefix sub (c # cs) then int i else str_find_from (Suc i) cs sub)"

definition str_find :: "string \<Rightarrow> string \<Rightarrow> int" where
  "str_find s sub = str_find_from 0 s sub"


section \<open>Constants of \<open>config/plugins/mlnx.py\<close>\<close>

definition ENV_VARIABLE_SX_SNIFFER :: string where
  "ENV_VARIABLE_SX_SNIFFER = ''SX_SNIFFER_ENABLE''"

definition ENV_VARIABLE_SX_SNIFFER_TARGET :: string where
  "ENV_VARIABLE_SX_SNIFFER_TARGET = ''SX_SNIFFER_TARGET''"

definition SDK_SNIFFER_TARGET_PATH :: string where
  "SDK_SNIFFER_TARGET_PATH = ''/var/log/sdk_dbg/''"

definition SDK_SNIFFER_FILENAME_PREFIX :: string where
  "SDK_SNIFFER_FILENAME_PREFIX = ''sx_sdk_sniffer_''"

definition SDK_SNIFFER_FILENAME_EXT :: string where
  "SDK_SNIFFER_FILENAME_EXT = ''.pcap''"

definition TMP_SNIFFER_CONF_FILE :: string where
  "TMP_SNIFFER_CONF_FILE = ''/tmp/tmp.conf''"

definition CONTAINER_NAME :: string where
  "CONTAINER_NAME = ''syncd''"

definition SNIFFER_CONF_FILE :: string where
  "SNIFFER_CONF_FILE = ''/etc/supervisor/conf.d/mlnx_sniffer.conf''"

definition SNIFFER_CONF_FILE_IN_CONTAINER :: string where
  "SNIFFER_CONF_FILE_IN_CONTAINER = CONTAINER_NAME @ '':'' @ SNIFFER_CONF_FILE"

definition COMMAND_RESTART_SWSS :: "string list" where
  "COMMAND_RESTART_SWSS = [''systemctl'', ''restart'', ''swss.service'']"

definition SECTION_HEADER :: string where
  "SECTION_HEADER = ''[program:syncd]'' @ [NL]"

section \<open>The world the tool acts on\<close>

text \<open>
  The tool reads and writes files, runs external commands, prints to the terminal and writes
  to the system log. The world holds the files by path (a path inside a container is written
  \<open>container:path\<close>, as \<open>docker cp\<close> writes it), the directories that exist, the lines
  printed by \<open>click.echo\<close>, the lines sent to the system log, and the sequence of operations
  performed so far, oldest first.
\<close>

datatype event =
    Run "string list"
  | Opened string string
  | Makedirs string

record world =
  files :: "string \<rightharpoonup> string"
  dirs :: "string set"
  stdout :: "string list"
  syslog :: "string list"
  events :: "event list"

text \<open>
  What the tool cannot decide: for each external command whether starting it raises
  \<open>OSError\<close> (with the text of the exception), whether \<open>os.makedirs\<close> does, and the value of
  \<open>time.strftime("%Y%m%d%H%M%S")\<close>.
\<close>

record env =
  command_error :: "string list \<Rightarrow> string option"
  makedirs_error :: "string option"
  strftime :: string

datatype error = OSError string

definition record_event :: "event \<Rightarrow> world \<Rightarrow> world" where
  "record_event e w = w\<lparr>events := events w @ [e]\<rparr>"

text \<open>
  \<open>click.echo\<close> prints a line. \<open>log.log_error\<close> of the logger library sends a line to the
  system log and, when its flag is set, prints it as well.
\<close>

definition echo :: "string \<Rightarrow> world \<Rightarrow> world" where
  "echo msg w = w\<lparr>stdout := stdout w @ [msg]\<rparr>"

definition log_error :: "string \<Rightarrow> bool \<Rightarrow> world \<Rightarrow> world" where
  "log_error msg also_print_to_console w =
     (let w1 = w\<lparr>syslog := syslog w @ [msg]\<rparr>
      in if also_print_to_console then w1\<lparr>stdout := stdout w1 @ [msg]\<rparr> else w1)"

text \<open>
  Modelled from the spec: \<open>utilities_common.cli.run_command\<close>, which the plugin imports and
  which is not part of it. The spec's transport commands are external process invocations
  with a fixed argument shape: ensure that the remote fragment exists (creating an empty one
  if absent), copy a file between the container and the host (overwriting the destination),
  remove the staging file, and restart the service. A failure reaches the plugin as an
  exception; the only one the plugin names is \<open>OSError\<close>, which \<open>restart_swss\<close> catches and
  every other caller lets pass. A command that fails has no effect on the files, and a copy
  whose source does not exist fails.
\<close>

definition command_effect :: "string list \<Rightarrow> world \<Rightarrow> world option" where
  "command_effect command w =
     (case command of
        [a, b, src, dest] \<Rightarrow>
          if a = ''docker'' \<and> b = ''cp'' then
            (case files w src of
               None \<Rightarrow> None
             | Some c \<Rightarrow> Some (w\<lparr>files := (files w)(dest \<mapsto> c)\<rparr>))
          else Some w
      | [a, b, cn, sh, opt, script] \<Rightarrow>
          if a = ''docker'' \<and> b = ''exec'' \<and> sh = ''bash'' \<and> opt = ''-c''
             \<and> take 6 script = ''touch '' then
            (let p = cn @ '':'' @ drop 6 script
             in Some (w\<lparr>files := (files w)(p \<mapsto> (case files w p of None \<Rightarrow> [] | Some c \<Rightarrow> c))\<rparr>))
          else Some w
      | [a, b, p] \<Rightarrow>
          if a = ''rm'' \<and> b = ''-rf'' then Some (w\<lparr>files := (files w)(p := None)\<rparr>)
          else Some w
      | _ \<Rightarrow> Some w)"

definition run_command :: "env \<Rightarrow> string list \<Rightarrow> world \<Rightarrow> (error + unit) \<times> world" where
  "run_command en command w =
     (let w1 = record_event (Run command) w
      in case command_error en command of
           Some msg \<Rightarrow> (Inl (OSError msg), w1)
         | None \<Rightarrow>
             (case command_effect command w1 of
                None \<Rightarrow> (Inl (OSError ''No such file or directory''), w1)
              | Some w2 \<Rightarrow> (Inr (), w2)))"

section \<open>The sniffer functions\<close>

text \<open>
  \<open>sniffer_filename_generate\<close>: creates the target directory when it is missing and
  returns the name of the capture file, which carries the time stamp.
\<close>

definition sniffer_filename_generate ::
  "env \<Rightarrow> string \<Rightarrow> string \<Rightarrow> string \<Rightarrow> world \<Rightarrow> (error + string) \<times> world" where
  "sniffer_filename_generate en path filename_prefix filename_ext w =
     (if path \<notin> dirs w then
        (case makedirs_error en of
           Some msg \<Rightarrow> (Inl (OSError msg), record_event (Makedirs path) w)
         | None \<Rightarrow>
             (Inr (path @ filename_prefix @ strftime en @ filename_ext),
              (record_event (Makedirs path) w)\<lparr>dirs := insert path (dirs w)\<rparr>))
      else (Inr (path @ filename_prefix @ strftime en @ filename_ext), w))"

text \<open>
  \<open>env_variable_write\<close>: opens the staging file for appending (which creates it when
  missing), writes the section header first when the file is empty on disk, then the string.
\<close>

definition env_variable_write :: "string \<Rightarrow> world \<Rightarrow> (error + unit) \<times> world" where
  "env_variable_write env_variable_string w =
     (let w1 = record_event (Opened TMP_SNIFFER_CONF_FILE ''a'') w;
          old = (case files w1 TMP_SNIFFER_CONF_FILE of None \<Rightarrow> [] | Some c \<Rightarrow> c);
          written = (if length old = 0 then SECTION_HEADER else []) @ env_variable_string
      in (Inr (), w1\<lparr>files := (files w1)(TMP_SNIFFER_CONF_FILE \<mapsto> old @ written)\<rparr>))"

text \<open>
  \<open>env_variable_read\<close>: the \<open>for \<dots> else\<close> loop over the lines of the staging file. The loop
  breaks at the first line in which \<open>find\<close> does not return \<open>-1\<close>; when it runs to its end
  the result is the empty string.
\<close>

fun read_loop :: "string list \<Rightarrow> string \<Rightarrow> string" where
  "read_loop [] env_variable_name = []"
| "read_loop (env_variable_string # rest) env_variable_name =
     (if str_find env_variable_string env_variable_name \<ge> 0 then env_variable_string
      else read_loop rest env_variable_name)"

definition env_variable_read :: "string \<Rightarrow> world \<Rightarrow> (error + string) \<times> world" where
  "env_variable_read env_variable_name w =
     (let w1 = record_event (Opened TMP_SNIFFER_CONF_FILE ''r'') w
      in case files w1 TMP_SNIFFER_CONF_FILE of
           None \<Rightarrow> (Inl (OSError ''No such file or directory''), w1)
         | Some c \<Rightarrow> (Inr (read_loop (readlines c) env_variable_name), w1))"

text \<open>
  \<open>env_variable_delete\<close>: reads all lines, rewinds, writes every line that differs from
  \<open>delete_line\<close> and truncates the file after the last line written.
\<close>

fun write_kept :: "string list \<Rightarrow> string \<Rightarrow> string" where
  "write_kept [] delete_line = []"
| "write_kept (line # rest) delete_line =
     (if line \<noteq> delete_line then line @ write_kept rest delete_line
      else write_kept rest delete_line)"

definition env_variable_delete :: "string \<Rightarrow> world \<Rightarrow> (error + unit) \<times> world" where
  "env_variable_delete delete_line w =
     (let w1 = record_event (Opened TMP_SNIFFER_CONF_FILE ''r+'') w
      in case files w1 TMP_SNIFFER_CONF_FILE of
           None \<Rightarrow> (Inl (OSError ''No such file or directory''), w1)
         | Some c \<Rightarrow>
             (Inr (),
              w1\<lparr>files := (files w1)(TMP_SNIFFER_CONF_FILE \<mapsto>
                     write_kept (readlines c) delete_line)\<rparr>))"

definition conf_file_copy :: "env \<Rightarrow> string \<Rightarrow> string \<Rightarrow> world \<Rightarrow> (error + unit) \<times> world" where
  "conf_file_copy en src dest w = run_command en [''docker'', ''cp'', src, dest] w"

definition conf_file_receive :: "env \<Rightarrow> world \<Rightarrow> (error + unit) \<times> world" where
  "conf_file_receive en w =
     (case run_command en
             [''docker'', ''exec'', CONTAINER_NAME, ''bash'', ''-c'', ''touch '' @ SNIFFER_CONF_FILE] w of
        (Inl e, w1) \<Rightarrow> (Inl e, w1)
      | (Inr u, w1) \<Rightarrow> conf_file_copy en SNIFFER_CONF_FILE_IN_CONTAINER TMP_SNIFFER_CONF_FILE w1)"

definition config_file_send :: "env \<Rightarrow> world \<Rightarrow> (error + unit) \<times> world" where
  "config_file_send en w = conf_file_copy en TMP_SNIFFER_CONF_FILE SNIFFER_CONF_FILE_IN_CONTAINER w"

text \<open>
  \<open>sniffer_env_variable_set\<close>. The first part runs up to the end of the \<open>if\<close> cascade and
  yields the flag \<open>ignore\<close>; the second part publishes unless \<open>ignore\<close> is set, removes the
  staging file and returns the flag. An exception leaves the function at once.
\<close>

definition sniffer_decide_and_mutate ::
  "bool \<Rightarrow> string \<Rightarrow> string \<Rightarrow> world \<Rightarrow> (error + bool) \<times> world" where
  "sniffer_decide_and_mutate enable env_variable_name env_variable_string w =
     (case env_variable_read env_variable_name w of
        (Inl e, w1) \<Rightarrow> (Inl e, w1)
      | (Inr env_variable_exist_string, w1) \<Rightarrow>
          if env_variable_exist_string \<noteq> [] then
            (if enable then (Inr True, echo ''sniffer is already enabled, do nothing'' w1)
             else (case env_variable_delete env_variable_exist_string w1 of
                     (Inl e, w2) \<Rightarrow> (Inl e, w2)
                   | (Inr u, w2) \<Rightarrow> (Inr False, w2)))
          else
            (if enable then
               (case env_variable_write env_variable_string w1 of
                  (Inl e, w2) \<Rightarrow> (Inl e, w2)
                | (Inr u, w2) \<Rightarrow> (Inr False, w2))
             else (Inr True, echo ''sniffer is already disabled, do nothing'' w1)))"

definition sniffer_publish_and_clean :: "env \<Rightarrow> bool \<Rightarrow> world \<Rightarrow> (error + bool) \<times> world" where
  "sniffer_publish_and_clean en ignore w =
     (case (if \<not> ignore then config_file_send en w else (Inr (), w)) of
        (Inl e, w1) \<Rightarrow> (Inl e, w1)
      | (Inr u, w1) \<Rightarrow>
          (case run_command en [''rm'', ''-rf'', TMP_SNIFFER_CONF_FILE] w1 of
             (Inl e, w2) \<Rightarrow> (Inl e, w2)
           | (Inr u, w2) \<Rightarrow> (Inr ignore, w2)))"

definition sniffer_env_variable_set ::
  "env \<Rightarrow> bool \<Rightarrow> string \<Rightarrow> string \<Rightarrow> world \<Rightarrow> (error + bool) \<times> world" where
  "sniffer_env_variable_set en enable env_variable_name env_variable_string w =
     (case conf_file_receive en w of
        (Inl e, w1) \<Rightarrow> (Inl e, w1)
      | (Inr u, w1) \<Rightarrow>
          (case sniffer_decide_and_mutate enable env_variable_name env_variable_string w1 of
             (Inl e, w2) \<Rightarrow> (Inl e, w2)
           | (Inr ignore, w2) \<Rightarrow> sniffer_publish_and_clean en ignore w2))"

text \<open>
  \<open>restart_swss\<close>: an \<open>OSError\<close> of the restart command is caught, logged (and printed), and
  turned into the return value 1.
\<close>

definition restart_swss :: "env \<Rightarrow> world \<Rightarrow> int \<times> world" where
  "restart_swss en w =
     (case run_command en COMMAND_RESTART_SWSS w of
        (Inl (OSError e), w1) \<Rightarrow>
          (1, log_error (''Not able to restart swss service, '' @ e) True w1)
      | (Inr u, w1) \<Rightarrow> (0, w1))"

text \<open>
  \<open>sdk_sniffer_enable\<close> builds the directive line from the dictionary of the two variables
  (a Python dictionary iterates in insertion order, so it is an association list here): the
  loop appends \<open>name=value\<close> for each item and nothing between the items.
\<close>

fun append_items :: "string \<Rightarrow> (string \<times> string) list \<Rightarrow> string" where
  "append_items acc [] = acc"
| "append_items acc ((env_variable_name, env_variable_value) # rest) =
     append_items (acc @ (env_variable_name @ ''='' @ env_variable_value)) rest"

definition sdk_sniffer_env_variable_dict :: "string \<Rightarrow> (string \<times> string) list" where
  "sdk_sniffer_env_variable_dict sdk_sniffer_filename =
     [(ENV_VARIABLE_SX_SNIFFER, ''1'' @ '',''),
      (ENV_VARIABLE_SX_SNIFFER_TARGET, sdk_sniffer_filename)]"

definition sdk_sniffer_env_variable_string :: "(string \<times> string) list \<Rightarrow> string" where
  "sdk_sniffer_env_variable_string d = append_items ''environment='' d @ [NL]"

definition sdk_sniffer_enable :: "env \<Rightarrow> world \<Rightarrow> (error + unit) \<times> world" where
  "sdk_sniffer_enable en w =
     (case sniffer_filename_generate en SDK_SNIFFER_TARGET_PATH SDK_SNIFFER_FILENAME_PREFIX
             SDK_SNIFFER_FILENAME_EXT w of
        (Inl e, w1) \<Rightarrow> (Inl e, w1)
      | (Inr sdk_sniffer_filename, w1) \<Rightarrow>
          (case sniffer_env_variable_set en True ENV_VARIABLE_SX_SNIFFER
                  (sdk_sniffer_env_variable_string
                     (sdk_sniffer_env_variable_dict sdk_sniffer_filename)) w1 of
             (Inl e, w2) \<Rightarrow> (Inl e, w2)
           | (Inr ignore, w2) \<Rightarrow>
               if \<not> ignore then
                 (case restart_swss en w2 of
                    (err, w3) \<Rightarrow>
                      if err \<noteq> 0 then (Inr (), w3)
                      else (Inr (),
                            echo (''SDK sniffer is Enabled, recording file is ''
                                  @ sdk_sniffer_filename @ ''.'') w3))
               else (Inr (), w2)))"

definition sdk_sniffer_disable :: "env \<Rightarrow> world \<Rightarrow> (error + unit) \<times> world" where
  "sdk_sniffer_disable en w =
     (case sniffer_env_variable_set en False ENV_VARIABLE_SX_SNIFFER [] w of
        (Inl e, w2) \<Rightarrow> (Inl e, w2)
      | (Inr ignore, w2) \<Rightarrow>
          if \<not> ignore then
            (case restart_swss en w2 of
               (err, w3) \<Rightarrow>
                 if err \<noteq> 0 then (Inr (), w3)
                 else (Inr (), echo ''SDK sniffer is Disabled.'' w3))
          else (Inr (), w2))"

section \<open>Vocabulary of the properties\<close>

text \<open>
  Names for the four commands that \<open>conf_file_receive\<close>, \<open>config_file_send\<close> and
  \<open>sniffer_env_variable_set\<close> hand to \<open>run_command\<close>.
\<close>

definition ENSURE_COMMAND :: "string list" where
  "ENSURE_COMMAND =
     [''docker'', ''exec'', CONTAINER_NAME, ''bash'', ''-c'', ''touch '' @ SNIFFER_CONF_FILE]"

definition FETCH_COMMAND :: "string list" where
  "FETCH_COMMAND = [''docker'', ''cp'', SNIFFER_CONF_FILE_IN_CONTAINER, TMP_SNIFFER_CONF_FILE]"

definition PUBLISH_COMMAND :: "string list" where
  "PUBLISH_COMMAND = [''docker'', ''cp'', TMP_SNIFFER_CONF_FILE, SNIFFER_CONF_FILE_IN_CONTAINER]"

definition CLEANUP_COMMAND :: "string list" where
  "CLEANUP_COMMAND = [''rm'', ''-rf'', TMP_SNIFFER_CONF_FILE]"

text \<open>
  The content of the remote fragment; a fragment that does not exist yet has no content
  (fetching creates it empty). The staging artifact is the file at the staging path.
\<close>

definition remote_fragment :: "world \<Rightarrow> string" where
  "remote_fragment w =
     (case files w SNIFFER_CONF_FILE_IN_CONTAINER of None \<Rightarrow> [] | Some c \<Rightarrow> c)"

definition staging_exists :: "world \<Rightarrow> bool" where
  "staging_exists w = (files w TMP_SNIFFER_CONF_FILE \<noteq> None)"

text \<open>
  The position of an operation in the protocol: building the target path, fetching (ensure,
  then copy into staging), locating, mutating, publishing, cleaning up, restarting.
\<close>

definition step_rank :: "event \<Rightarrow> nat" where
  "step_rank e =
     (if e = Makedirs SDK_SNIFFER_TARGET_PATH then 0
      else if e = Run ENSURE_COMMAND then 1
      else if e = Run FETCH_COMMAND then 2
      else if e = Opened TMP_SNIFFER_CONF_FILE ''r'' then 3
      else if e = Opened TMP_SNIFFER_CONF_FILE ''a'' \<or> e = Opened TMP_SNIFFER_CONF_FILE ''r+'' then 4
      else if e = Run PUBLISH_COMMAND then 5
      else if e = Run CLEANUP_COMMAND then 6
      else if e = Run COMMAND_RESTART_SWSS then 7
      else 8)"




text \<open>A world without files, and an environment in which nothing fails.\<close>

definition empty_world :: world where
  "empty_world = \<lparr>files = Map.empty, dirs = {}, stdout = [], syslog = [], events = []\<rparr>"

definition calm_env :: "string \<Rightarrow> env" where
  "calm_env ts = \<lparr>command_error = (\<lambda>c. None), makedirs_error = None, strftime = ts\<rparr>"

text \<open>Some line of a text contains the name.\<close>

definition directive_present :: "string \<Rightarrow> string \<Rightarrow> bool" where
  "directive_present name c = (\<exists>l \<in> set (readlines c). sublist name l)"

text \<open>
  The staging content after the mutation that \<open>sniffer_env_variable_set\<close> performs when it
  does not ignore the request: the append of \<open>env_variable_write\<close> when enabling, the rewrite
  of \<open>env_variable_delete\<close> with the line found by \<open>env_variable_read\<close> when disabling.
\<close>

definition mutated :: "bool \<Rightarrow> string \<Rightarrow> string \<Rightarrow> string \<Rightarrow> string" where
  "mutated enable name str c =
     (if enable then c @ (if c = [] then SECTION_HEADER else []) @ str
      else write_kept (readlines c) (read_loop (readlines c) name))"

text \<open>
  The capture file name and the directive line that \<open>sdk_sniffer_enable\<close> computes at the
  time stamp of the environment.
\<close>

definition sdk_sniffer_filename :: "env \<Rightarrow> string" where
  "sdk_sniffer_filename en =
     SDK_SNIFFER_TARGET_PATH @ SDK_SNIFFER_FILENAME_PREFIX @ strftime en @ SDK_SNIFFER_FILENAME_EXT"

definition enable_directive :: "env \<Rightarrow> string" where
  "enable_directive en =
     sdk_sniffer_env_variable_string (sdk_sniffer_env_variable_dict (sdk_sniffer_filename en))"

text \<open>A sequence of operations follows the protocol: the positions increase strictly.\<close>

definition in_order :: "event list \<Rightarrow> bool" where
  "in_order tr = sorted_wrt (\<lambda>a b. step_rank a < step_rank b) tr"

text \<open>
  A world whose only file is the remote fragment, one whose only file is the staging
  artifact, and an environment in which the restart command alone fails.
\<close>

definition world_with_fragment :: "string \<Rightarrow> world" where
  "world_with_fragment c = empty_world\<lparr>files := [SNIFFER_CONF_FILE_IN_CONTAINER \<mapsto> c]\<rparr>"

definition world_with_staging :: "string \<Rightarrow> world" where
  "world_with_staging c = empty_world\<lparr>files := [TMP_SNIFFER_CONF_FILE \<mapsto> c]\<rparr>"

definition restart_fails_env :: "string \<Rightarrow> string \<Rightarrow> env" where
  "restart_fails_env ts msg =
     \<lparr>command_error = (\<lambda>c. if c = COMMAND_RESTART_SWSS then Some msg else None),
      makedirs_error = None, strftime = ts\<rparr>"

section \<open>Lines of a text\<close>


lemma readlines_no_empty: "[] \<notin> set (readlines s)"
  by (induction s) (auto split: list.splits)








lemma str_find_from_sublist: "0 \<le> str_find_from i s sub \<longleftrightarrow> sublist sub s"
  by (induction i s sub rule: str_find_from.induct) (auto simp: sublist_Cons_right)

lemma str_find_sublist: "0 \<le> str_find s sub \<longleftrightarrow> sublist sub s"
  by (simp add: str_find_def str_find_from_sublist)

lemma read_loop_find:
  "read_loop ls n = (case find (\<lambda>l. sublist n l) ls of None \<Rightarrow> [] | Some l \<Rightarrow> l)"
  by (induction ls) (auto simp: str_find_sublist)

section \<open>Effects of the commands\<close>

lemma paths_distinct: "TMP_SNIFFER_CONF_FILE \<noteq> SNIFFER_CONF_FILE_IN_CONTAINER"
  by (simp add: TMP_SNIFFER_CONF_FILE_def SNIFFER_CONF_FILE_IN_CONTAINER_def CONTAINER_NAME_def)

lemma ensure_effect:
  "command_effect ENSURE_COMMAND w =
     Some (w\<lparr>files := (files w)(SNIFFER_CONF_FILE_IN_CONTAINER \<mapsto> remote_fragment w)\<rparr>)"
  by (simp add: command_effect_def ENSURE_COMMAND_def SNIFFER_CONF_FILE_IN_CONTAINER_def
      remote_fragment_def Let_def)

lemma copy_effect:
  "command_effect [''docker'', ''cp'', src, dest] w =
     (case files w src of None \<Rightarrow> None | Some c \<Rightarrow> Some (w\<lparr>files := (files w)(dest \<mapsto> c)\<rparr>))"
  by (simp add: command_effect_def)

lemma cleanup_effect:
  "command_effect CLEANUP_COMMAND w = Some (w\<lparr>files := (files w)(TMP_SNIFFER_CONF_FILE := None)\<rparr>)"
  by (simp add: command_effect_def CLEANUP_COMMAND_def)

lemma restart_effect: "command_effect COMMAND_RESTART_SWSS w = Some w"
  by (simp add: command_effect_def COMMAND_RESTART_SWSS_def)


lemma record_event_simps:
  "files (record_event e w) = files w" "dirs (record_event e w) = dirs w"
  "stdout (record_event e w) = stdout w" "syslog (record_event e w) = syslog w"
  "events (record_event e w) = events w @ [e]"
  by (simp_all add: record_event_def)

lemma remote_fragment_record_event: "remote_fragment (record_event e w) = remote_fragment w"
  by (simp add: remote_fragment_def record_event_simps)

lemma echo_simps:
  "files (echo m w) = files w" "dirs (echo m w) = dirs w"
  "stdout (echo m w) = stdout w @ [m]" "syslog (echo m w) = syslog w"
  "events (echo m w) = events w"
  by (simp_all add: echo_def)

lemma run_command_frame:
  assumes "run_command en command w = (r, w')"
  shows "events w' = events w @ [Run command]" "dirs w' = dirs w" "stdout w' = stdout w"
    "syslog w' = syslog w"
  using assms
  by (auto simp: run_command_def Let_def command_effect_def record_event_simps
      split: option.splits list.splits if_splits)

lemma run_ensure:
  assumes "run_command en ENSURE_COMMAND w = (Inr u, w')"
  shows "files w' = (files w)(SNIFFER_CONF_FILE_IN_CONTAINER \<mapsto> remote_fragment w)"
  using assms
  by (auto simp: run_command_def Let_def ensure_effect record_event_simps
      remote_fragment_record_event split: option.splits)

lemma run_copy:
  assumes "run_command en [''docker'', ''cp'', src, dest] w = (Inr u, w')"
  shows "\<exists>c. files w src = Some c \<and> files w' = (files w)(dest \<mapsto> c)"
  using assms
  by (auto simp: run_command_def Let_def copy_effect record_event_simps split: option.splits)

lemma run_cleanup:
  assumes "run_command en CLEANUP_COMMAND w = (Inr u, w')"
  shows "files w' = (files w)(TMP_SNIFFER_CONF_FILE := None)"
  using assms
  by (auto simp: run_command_def Let_def cleanup_effect record_event_simps split: option.splits)

lemma conf_file_receive_unfold:
  "conf_file_receive en w =
     (case run_command en ENSURE_COMMAND w of
        (Inl e, w1) \<Rightarrow> (Inl e, w1)
      | (Inr u, w1) \<Rightarrow> run_command en FETCH_COMMAND w1)"
  unfolding conf_file_receive_def conf_file_copy_def ENSURE_COMMAND_def FETCH_COMMAND_def
  by (rule refl)

lemma config_file_send_unfold: "config_file_send en w = run_command en PUBLISH_COMMAND w"
  by (simp add: config_file_send_def conf_file_copy_def PUBLISH_COMMAND_def)

lemma conf_file_receive_ok:
  assumes "conf_file_receive en w = (Inr u, w')"
  shows "files w' = (files w)(SNIFFER_CONF_FILE_IN_CONTAINER \<mapsto> remote_fragment w,
                               TMP_SNIFFER_CONF_FILE \<mapsto> remote_fragment w)"
    and "events w' = events w @ [Run ENSURE_COMMAND, Run FETCH_COMMAND]"
    and "dirs w' = dirs w" and "stdout w' = stdout w" and "syslog w' = syslog w"
proof -
  from assms obtain w1 where 1: "run_command en ENSURE_COMMAND w = (Inr (), w1)"
    and 2: "run_command en FETCH_COMMAND w1 = (Inr u, w')"
    by (auto simp: conf_file_receive_unfold split: prod.splits sum.splits)
  from run_ensure[OF 1]
  have f1: "files w1 = (files w)(SNIFFER_CONF_FILE_IN_CONTAINER \<mapsto> remote_fragment w)" .
  from run_copy[OF 2[unfolded FETCH_COMMAND_def]] f1
  show "files w' = (files w)(SNIFFER_CONF_FILE_IN_CONTAINER \<mapsto> remote_fragment w,
                               TMP_SNIFFER_CONF_FILE \<mapsto> remote_fragment w)"
    by auto
  from run_command_frame[OF 1] run_command_frame[OF 2]
  show "events w' = events w @ [Run ENSURE_COMMAND, Run FETCH_COMMAND]"
    and "dirs w' = dirs w" and "stdout w' = stdout w" and "syslog w' = syslog w"
    by simp_all
qed

section \<open>Effects of the sniffer functions\<close>



lemma env_variable_delete_ok:
  assumes "files w TMP_SNIFFER_CONF_FILE = Some c"
  shows "env_variable_delete d w =
     (Inr (), (record_event (Opened TMP_SNIFFER_CONF_FILE ''r+'') w)
        \<lparr>files := (files w)(TMP_SNIFFER_CONF_FILE \<mapsto> write_kept (readlines c) d)\<rparr>)"
  using assms by (simp add: env_variable_delete_def Let_def record_event_simps)

lemma env_variable_read_ok:
  assumes "files w TMP_SNIFFER_CONF_FILE = Some c"
  shows "env_variable_read name w =
     (Inr (read_loop (readlines c) name), record_event (Opened TMP_SNIFFER_CONF_FILE ''r'') w)"
  using assms by (simp add: env_variable_read_def Let_def record_event_simps)

lemma read_loop_empty_iff:
  "read_loop (readlines c) name = [] \<longleftrightarrow> \<not> directive_present name c"
proof (cases "find (sublist name) (readlines c)")
  case None
  then have "\<forall>l \<in> set (readlines c). \<not> sublist name l"
    by (simp add: find_None_iff)
  with None show ?thesis by (simp add: read_loop_find directive_present_def)
next
  case (Some l)
  then have "l \<in> set (readlines c)" "sublist name l"
    by (auto simp: find_Some_iff)
  moreover from this readlines_no_empty[of c] have "l \<noteq> []" by auto
  ultimately show ?thesis using Some by (auto simp: read_loop_find directive_present_def)
qed

lemma env_variable_write_ok:
  "env_variable_write str w =
     (Inr (), (record_event (Opened TMP_SNIFFER_CONF_FILE ''a'') w)
        \<lparr>files := (files w)(TMP_SNIFFER_CONF_FILE \<mapsto>
            (case files w TMP_SNIFFER_CONF_FILE of None \<Rightarrow> [] | Some c \<Rightarrow> c)
            @ (if (case files w TMP_SNIFFER_CONF_FILE of None \<Rightarrow> [] | Some c \<Rightarrow> c) = []
               then SECTION_HEADER else []) @ str)\<rparr>)"
  by (simp add: env_variable_write_def Let_def record_event_simps)

lemma decide_ok:
  assumes st: "files w TMP_SNIFFER_CONF_FILE = Some c"
    and run: "sniffer_decide_and_mutate enable name str w = (r, w')"
  shows "r = Inr (directive_present name c = enable)"
    and "files w' = (if directive_present name c = enable then files w
                     else (files w)(TMP_SNIFFER_CONF_FILE \<mapsto> mutated enable name str c))"
    and "events w' = events w @ [Opened TMP_SNIFFER_CONF_FILE ''r''] @
           (if directive_present name c = enable then []
            else [Opened TMP_SNIFFER_CONF_FILE (if enable then ''a'' else ''r+'')])"
    and "stdout w' = stdout w @
           (if directive_present name c = enable then
              [if enable then ''sniffer is already enabled, do nothing''
               else ''sniffer is already disabled, do nothing'']
            else [])"
    and "dirs w' = dirs w" and "syslog w' = syslog w"
proof -
  let ?w1 = "record_event (Opened TMP_SNIFFER_CONF_FILE ''r'') w"
  have f1: "files ?w1 TMP_SNIFFER_CONF_FILE = Some c"
    using st by (simp add: record_event_simps)
  have all: "r = Inr (directive_present name c = enable)
    \<and> files w' = (if directive_present name c = enable then files w
                     else (files w)(TMP_SNIFFER_CONF_FILE \<mapsto> mutated enable name str c))
    \<and> events w' = events w @ [Opened TMP_SNIFFER_CONF_FILE ''r''] @
           (if directive_present name c = enable then []
            else [Opened TMP_SNIFFER_CONF_FILE (if enable then ''a'' else ''r+'')])
    \<and> stdout w' = stdout w @
           (if directive_present name c = enable then
              [if enable then ''sniffer is already enabled, do nothing''
               else ''sniffer is already disabled, do nothing'']
            else [])
    \<and> dirs w' = dirs w \<and> syslog w' = syslog w"
  proof (cases "read_loop (readlines c) name = []")
    case True
    then have np: "\<not> directive_present name c" by (simp add: read_loop_empty_iff)
    show ?thesis
    proof (cases enable)
      case True
      with run np \<open>read_loop (readlines c) name = []\<close> st show ?thesis
        by (auto simp: sniffer_decide_and_mutate_def env_variable_read_ok[OF st]
            env_variable_write_ok record_event_simps mutated_def)
    next
      case False
      with run np \<open>read_loop (readlines c) name = []\<close> show ?thesis
        by (auto simp: sniffer_decide_and_mutate_def env_variable_read_ok[OF st]
            record_event_simps echo_simps)
    qed
  next
    case False
    then have p: "directive_present name c" by (simp add: read_loop_empty_iff)
    show ?thesis
    proof (cases enable)
      case True
      with run p False show ?thesis
        by (auto simp: sniffer_decide_and_mutate_def env_variable_read_ok[OF st]
            record_event_simps echo_simps)
    next
      case en: False
      with run p False show ?thesis
        by (auto simp: sniffer_decide_and_mutate_def env_variable_read_ok[OF st]
            env_variable_delete_ok[OF f1] record_event_simps mutated_def)
    qed
  qed
  then show "r = Inr (directive_present name c = enable)"
    and "files w' = (if directive_present name c = enable then files w
                     else (files w)(TMP_SNIFFER_CONF_FILE \<mapsto> mutated enable name str c))"
    and "events w' = events w @ [Opened TMP_SNIFFER_CONF_FILE ''r''] @
           (if directive_present name c = enable then []
            else [Opened TMP_SNIFFER_CONF_FILE (if enable then ''a'' else ''r+'')])"
    and "stdout w' = stdout w @
           (if directive_present name c = enable then
              [if enable then ''sniffer is already enabled, do nothing''
               else ''sniffer is already disabled, do nothing'']
            else [])"
    and "dirs w' = dirs w" and "syslog w' = syslog w"
    by simp_all
qed

lemma publish_clean_ok:
  assumes run: "sniffer_publish_and_clean en ignore w = (Inr r, w')"
  shows "r = ignore"
    and "files w' = (if ignore then (files w)(TMP_SNIFFER_CONF_FILE := None)
                     else (files w)(SNIFFER_CONF_FILE_IN_CONTAINER := files w TMP_SNIFFER_CONF_FILE,
                                    TMP_SNIFFER_CONF_FILE := None))"
    and "events w' = events w @ (if ignore then [] else [Run PUBLISH_COMMAND]) @ [Run CLEANUP_COMMAND]"
    and "stdout w' = stdout w" and "dirs w' = dirs w" and "syslog w' = syslog w"
proof -
  have all: "r = ignore
    \<and> files w' = (if ignore then (files w)(TMP_SNIFFER_CONF_FILE := None)
                     else (files w)(SNIFFER_CONF_FILE_IN_CONTAINER := files w TMP_SNIFFER_CONF_FILE,
                                    TMP_SNIFFER_CONF_FILE := None))
    \<and> events w' = events w @ (if ignore then [] else [Run PUBLISH_COMMAND]) @ [Run CLEANUP_COMMAND]
    \<and> stdout w' = stdout w \<and> dirs w' = dirs w \<and> syslog w' = syslog w"
  proof (cases ignore)
    case True
    with run have c: "run_command en CLEANUP_COMMAND w = (Inr (), w')" and "r = ignore"
      by (auto simp: sniffer_publish_and_clean_def CLEANUP_COMMAND_def
          split: prod.splits sum.splits)
    with True run_cleanup[OF c] run_command_frame[OF c] show ?thesis by simp
  next
    case False
    with run obtain w1 where p: "run_command en PUBLISH_COMMAND w = (Inr (), w1)"
      and c: "run_command en CLEANUP_COMMAND w1 = (Inr (), w')" and "r = ignore"
      by (auto simp: sniffer_publish_and_clean_def CLEANUP_COMMAND_def config_file_send_unfold
          split: prod.splits sum.splits)
    from run_copy[OF p[unfolded PUBLISH_COMMAND_def]] obtain s where
      s: "files w TMP_SNIFFER_CONF_FILE = Some s"
      "files w1 = (files w)(SNIFFER_CONF_FILE_IN_CONTAINER \<mapsto> s)" by auto
    with False \<open>r = ignore\<close> run_cleanup[OF c] run_command_frame[OF c] run_command_frame[OF p]
    show ?thesis by simp
  qed
  then show "r = ignore"
    and "files w' = (if ignore then (files w)(TMP_SNIFFER_CONF_FILE := None)
                     else (files w)(SNIFFER_CONF_FILE_IN_CONTAINER := files w TMP_SNIFFER_CONF_FILE,
                                    TMP_SNIFFER_CONF_FILE := None))"
    and "events w' = events w @ (if ignore then [] else [Run PUBLISH_COMMAND]) @ [Run CLEANUP_COMMAND]"
    and "stdout w' = stdout w" and "dirs w' = dirs w" and "syslog w' = syslog w"
    by simp_all
qed

lemma set_ok:
  assumes run: "sniffer_env_variable_set en enable name str w = (Inr ignore, w')"
  shows "ignore = (directive_present name (remote_fragment w) = enable)"
    and "files w' = (files w)(SNIFFER_CONF_FILE_IN_CONTAINER \<mapsto>
                        (if ignore then remote_fragment w
                         else mutated enable name str (remote_fragment w)),
                      TMP_SNIFFER_CONF_FILE := None)"
    and "events w' = events w @
           [Run ENSURE_COMMAND, Run FETCH_COMMAND, Opened TMP_SNIFFER_CONF_FILE ''r''] @
           (if ignore then []
            else [Opened TMP_SNIFFER_CONF_FILE (if enable then ''a'' else ''r+''),
                  Run PUBLISH_COMMAND]) @
           [Run CLEANUP_COMMAND]"
    and "stdout w' = stdout w @
           (if ignore then
              [if enable then ''sniffer is already enabled, do nothing''
               else ''sniffer is already disabled, do nothing'']
            else [])"
    and "dirs w' = dirs w" and "syslog w' = syslog w"
proof -
  let ?c = "remote_fragment w"
  from run obtain w1 w2 i where
    1: "conf_file_receive en w = (Inr (), w1)" and
    2: "sniffer_decide_and_mutate enable name str w1 = (Inr i, w2)" and
    3: "sniffer_publish_and_clean en i w2 = (Inr ignore, w')"
    by (auto simp: sniffer_env_variable_set_def split: prod.splits sum.splits)
  note r = conf_file_receive_ok[OF 1]
  have st: "files w1 TMP_SNIFFER_CONF_FILE = Some ?c" by (simp add: r(1))
  note d = decide_ok[OF st 2]
  note p = publish_clean_ok[OF 3]
  from d(1) p(1) have i: "i = ignore" "ignore = (directive_present name ?c = enable)" by auto
  show "ignore = (directive_present name ?c = enable)" by (rule i(2))
  show "files w' = (files w)(SNIFFER_CONF_FILE_IN_CONTAINER \<mapsto>
                        (if ignore then ?c else mutated enable name str ?c),
                      TMP_SNIFFER_CONF_FILE := None)"
    using i p(2) d(2) r(1) paths_distinct by (auto simp: fun_upd_twist)
  show "events w' = events w @
           [Run ENSURE_COMMAND, Run FETCH_COMMAND, Opened TMP_SNIFFER_CONF_FILE ''r''] @
           (if ignore then []
            else [Opened TMP_SNIFFER_CONF_FILE (if enable then ''a'' else ''r+''),
                  Run PUBLISH_COMMAND]) @
           [Run CLEANUP_COMMAND]"
    using i p(3) d(3) r(2) by simp
  show "stdout w' = stdout w @
           (if ignore then
              [if enable then ''sniffer is already enabled, do nothing''
               else ''sniffer is already disabled, do nothing'']
            else [])"
    using i p(4) d(4) r(4) by simp
  show "dirs w' = dirs w" using p(5) d(5) r(3) by simp
  show "syslog w' = syslog w" using p(6) d(6) r(5) by simp
qed

lemma restart_swss_ok:
  assumes "restart_swss en w = (err, w')"
  shows "files w' = files w" and "dirs w' = dirs w"
    and "events w' = events w @ [Run COMMAND_RESTART_SWSS]"
    and "err = (case command_error en COMMAND_RESTART_SWSS of None \<Rightarrow> 0 | Some m \<Rightarrow> 1)"
    and "syslog w' = syslog w @
           (case command_error en COMMAND_RESTART_SWSS of None \<Rightarrow> []
            | Some m \<Rightarrow> [''Not able to restart swss service, '' @ m])"
    and "stdout w' = stdout w @
           (case command_error en COMMAND_RESTART_SWSS of None \<Rightarrow> []
            | Some m \<Rightarrow> [''Not able to restart swss service, '' @ m])"
  using assms
  by (auto simp: restart_swss_def run_command_def Let_def restart_effect record_event_simps
      log_error_def split: option.splits)

lemma filename_generate_ok:
  assumes "sniffer_filename_generate en SDK_SNIFFER_TARGET_PATH SDK_SNIFFER_FILENAME_PREFIX
             SDK_SNIFFER_FILENAME_EXT w = (Inr f, w')"
  shows "f = sdk_sniffer_filename en" and "files w' = files w" and "stdout w' = stdout w"
    and "syslog w' = syslog w" and "dirs w' = insert SDK_SNIFFER_TARGET_PATH (dirs w)"
    and "events w' = events w @
           (if SDK_SNIFFER_TARGET_PATH \<in> dirs w then [] else [Makedirs SDK_SNIFFER_TARGET_PATH])"
  using assms
  by (auto simp: sniffer_filename_generate_def sdk_sniffer_filename_def record_event_simps
      split: if_splits option.splits)

lemma enable_split:
  assumes "sdk_sniffer_enable en w = (Inr u, w')"
  obtains w1 w2 ignore err w3 where
    "sniffer_filename_generate en SDK_SNIFFER_TARGET_PATH SDK_SNIFFER_FILENAME_PREFIX
       SDK_SNIFFER_FILENAME_EXT w = (Inr (sdk_sniffer_filename en), w1)"
    "sniffer_env_variable_set en True ENV_VARIABLE_SX_SNIFFER (enable_directive en) w1
       = (Inr ignore, w2)"
    "restart_swss en w2 = (err, w3)"
    "w' = (if ignore then w2
           else if err \<noteq> 0 then w3
           else echo (''SDK sniffer is Enabled, recording file is ''
                      @ sdk_sniffer_filename en @ ''.'') w3)"
proof -
  from assms obtain f w1 where
    1: "sniffer_filename_generate en SDK_SNIFFER_TARGET_PATH SDK_SNIFFER_FILENAME_PREFIX
       SDK_SNIFFER_FILENAME_EXT w = (Inr f, w1)"
    by (auto simp: sdk_sniffer_enable_def split: prod.splits sum.splits)
  from filename_generate_ok(1)[OF 1] have f: "f = sdk_sniffer_filename en" .
  from assms 1 f obtain ignore w2 where
    2: "sniffer_env_variable_set en True ENV_VARIABLE_SX_SNIFFER (enable_directive en) w1
       = (Inr ignore, w2)"
    by (auto simp: sdk_sniffer_enable_def enable_directive_def split: prod.splits sum.splits)
  obtain err w3 where 3: "restart_swss en w2 = (err, w3)" by (cases "restart_swss en w2")
  from assms 1 f 2 3 have
    "w' = (if ignore then w2
           else if err \<noteq> 0 then w3
           else echo (''SDK sniffer is Enabled, recording file is ''
                      @ sdk_sniffer_filename en @ ''.'') w3)"
    by (auto simp: sdk_sniffer_enable_def enable_directive_def split: if_splits)
  with 1 f 2 3 that show thesis by blast
qed

lemma disable_split:
  assumes "sdk_sniffer_disable en w = (Inr u, w')"
  obtains w2 ignore err w3 where
    "sniffer_env_variable_set en False ENV_VARIABLE_SX_SNIFFER [] w = (Inr ignore, w2)"
    "restart_swss en w2 = (err, w3)"
    "w' = (if ignore then w2
           else if err \<noteq> 0 then w3
           else echo ''SDK sniffer is Disabled.'' w3)"
proof -
  from assms obtain ignore w2 where
    2: "sniffer_env_variable_set en False ENV_VARIABLE_SX_SNIFFER [] w = (Inr ignore, w2)"
    by (auto simp: sdk_sniffer_disable_def split: prod.splits sum.splits)
  obtain err w3 where 3: "restart_swss en w2 = (err, w3)" by (cases "restart_swss en w2")
  from assms 2 3 have
    "w' = (if ignore then w2
           else if err \<noteq> 0 then w3
           else echo ''SDK sniffer is Disabled.'' w3)"
    by (auto simp: sdk_sniffer_disable_def split: if_splits)
  with 2 3 that show thesis by blast
qed

lemma enable_files:
  assumes "sdk_sniffer_enable en w = (Inr u, w')"
  shows "files w' = (files w)(SNIFFER_CONF_FILE_IN_CONTAINER \<mapsto>
           (if directive_present ENV_VARIABLE_SX_SNIFFER (remote_fragment w)
            then remote_fragment w
            else mutated True ENV_VARIABLE_SX_SNIFFER (enable_directive en) (remote_fragment w)),
           TMP_SNIFFER_CONF_FILE := None)"
    and "dirs w' = insert SDK_SNIFFER_TARGET_PATH (dirs w)"
proof -
  from assms obtain w1 w2 ignore err w3 where
    1: "sniffer_filename_generate en SDK_SNIFFER_TARGET_PATH SDK_SNIFFER_FILENAME_PREFIX
       SDK_SNIFFER_FILENAME_EXT w = (Inr (sdk_sniffer_filename en), w1)" and
    2: "sniffer_env_variable_set en True ENV_VARIABLE_SX_SNIFFER (enable_directive en) w1
       = (Inr ignore, w2)" and
    3: "restart_swss en w2 = (err, w3)" and
    4: "w' = (if ignore then w2
           else if err \<noteq> 0 then w3
           else echo (''SDK sniffer is Enabled, recording file is ''
                      @ sdk_sniffer_filename en @ ''.'') w3)"
    by (rule enable_split)
  note g = filename_generate_ok[OF 1]
  have rf: "remote_fragment w1 = remote_fragment w" by (simp add: remote_fragment_def g(2))
  note s = set_ok[OF 2, unfolded rf]
  note r = restart_swss_ok[OF 3]
  have fw: "files w' = files w2" and dw: "dirs w' = dirs w2"
    using 4 r(1,2) by (auto simp: echo_simps)
  show "files w' = (files w)(SNIFFER_CONF_FILE_IN_CONTAINER \<mapsto>
           (if directive_present ENV_VARIABLE_SX_SNIFFER (remote_fragment w)
            then remote_fragment w
            else mutated True ENV_VARIABLE_SX_SNIFFER (enable_directive en) (remote_fragment w)),
           TMP_SNIFFER_CONF_FILE := None)"
    using fw s(1,2) g(2) by auto
  show "dirs w' = insert SDK_SNIFFER_TARGET_PATH (dirs w)"
    using dw s(5) g(5) by simp
qed

lemma disable_files:
  assumes "sdk_sniffer_disable en w = (Inr u, w')"
  shows "files w' = (files w)(SNIFFER_CONF_FILE_IN_CONTAINER \<mapsto>
           (if directive_present ENV_VARIABLE_SX_SNIFFER (remote_fragment w)
            then mutated False ENV_VARIABLE_SX_SNIFFER [] (remote_fragment w)
            else remote_fragment w),
           TMP_SNIFFER_CONF_FILE := None)"
    and "dirs w' = dirs w"
proof -
  from assms obtain w2 ignore err w3 where
    2: "sniffer_env_variable_set en False ENV_VARIABLE_SX_SNIFFER [] w = (Inr ignore, w2)" and
    3: "restart_swss en w2 = (err, w3)" and
    4: "w' = (if ignore then w2
           else if err \<noteq> 0 then w3
           else echo ''SDK sniffer is Disabled.'' w3)"
    by (rule disable_split)
  note s = set_ok[OF 2]
  note r = restart_swss_ok[OF 3]
  have fw: "files w' = files w2" and dw: "dirs w' = dirs w2"
    using 4 r(1,2) by (auto simp: echo_simps)
  show "files w' = (files w)(SNIFFER_CONF_FILE_IN_CONTAINER \<mapsto>
           (if directive_present ENV_VARIABLE_SX_SNIFFER (remote_fragment w)
            then mutated False ENV_VARIABLE_SX_SNIFFER [] (remote_fragment w)
            else remote_fragment w),
           TMP_SNIFFER_CONF_FILE := None)"
    using fw s(1,2) by auto
  show "dirs w' = dirs w" using dw s(5) by simp
qed

section \<open>The order of the operations\<close>

lemma step_rank_simps:
  "step_rank (Makedirs SDK_SNIFFER_TARGET_PATH) = 0"
  "step_rank (Run ENSURE_COMMAND) = 1"
  "step_rank (Run FETCH_COMMAND) = 2"
  "step_rank (Opened TMP_SNIFFER_CONF_FILE ''r'') = 3"
  "step_rank (Opened TMP_SNIFFER_CONF_FILE ''a'') = 4"
  "step_rank (Opened TMP_SNIFFER_CONF_FILE ''r+'') = 4"
  "step_rank (Run PUBLISH_COMMAND) = 5"
  "step_rank (Run CLEANUP_COMMAND) = 6"
  "step_rank (Run COMMAND_RESTART_SWSS) = 7"
  by (simp_all add: step_rank_def ENSURE_COMMAND_def FETCH_COMMAND_def PUBLISH_COMMAND_def
      CLEANUP_COMMAND_def COMMAND_RESTART_SWSS_def TMP_SNIFFER_CONF_FILE_def
      SNIFFER_CONF_FILE_IN_CONTAINER_def CONTAINER_NAME_def)

lemma receive_events_any:
  assumes "conf_file_receive en w = (r, w')"
  shows "\<exists>n. events w' = events w @ n \<and> prefix n [Run ENSURE_COMMAND, Run FETCH_COMMAND]
           \<and> (\<forall>u. r = Inr u \<longrightarrow> n = [Run ENSURE_COMMAND, Run FETCH_COMMAND])"
  using assms
  by (auto simp: conf_file_receive_unfold split: prod.splits sum.splits
      dest!: run_command_frame(1))

lemma decide_events_any:
  assumes "sniffer_decide_and_mutate enable name str w = (r, w')"
  shows "\<exists>n. events w' = events w @ n \<and>
           (n = [Opened TMP_SNIFFER_CONF_FILE ''r''] \<or>
            n = [Opened TMP_SNIFFER_CONF_FILE ''r'', Opened TMP_SNIFFER_CONF_FILE ''a''] \<or>
            n = [Opened TMP_SNIFFER_CONF_FILE ''r'', Opened TMP_SNIFFER_CONF_FILE ''r+''])
           \<and> (r = Inr True \<longrightarrow> n = [Opened TMP_SNIFFER_CONF_FILE ''r''])"
  using assms
  by (auto simp: sniffer_decide_and_mutate_def env_variable_read_def env_variable_write_def
      env_variable_delete_def Let_def record_event_simps echo_simps
      split: prod.splits sum.splits option.splits if_splits)

lemma publish_events_any:
  assumes "sniffer_publish_and_clean en ignore w = (r, w')"
  shows "\<exists>n. events w' = events w @ n \<and>
           (if ignore then n = [Run CLEANUP_COMMAND]
            else prefix n [Run PUBLISH_COMMAND, Run CLEANUP_COMMAND])"
  using assms
  by (auto simp: sniffer_publish_and_clean_def config_file_send_unfold CLEANUP_COMMAND_def[symmetric]
      split: prod.splits sum.splits if_splits dest!: run_command_frame(1))

lemma prefix2:
  "prefix n [a, b] \<longleftrightarrow> n = [] \<or> n = [a] \<or> n = [a, b]"
  by (auto simp: prefix_Cons)

lemma set_in_order:
  assumes run: "sniffer_env_variable_set en enable name str w = (r, w')"
  shows "\<exists>n. events w' = events w @ n \<and> in_order n \<and>
           (\<forall>e \<in> set n. 1 \<le> step_rank e \<and> step_rank e \<le> 6)"
proof -
  obtain r1 w1 where 1: "conf_file_receive en w = (r1, w1)"
    by (cases "conf_file_receive en w")
  from receive_events_any[OF 1] obtain n1 where
    n1: "events w1 = events w @ n1" "prefix n1 [Run ENSURE_COMMAND, Run FETCH_COMMAND]"
    "\<forall>u. r1 = Inr u \<longrightarrow> n1 = [Run ENSURE_COMMAND, Run FETCH_COMMAND]" by blast
  show ?thesis
  proof (cases r1)
    case (Inl e)
    with run 1 have "w' = w1" by (simp add: sniffer_env_variable_set_def)
    with n1 show ?thesis
      by (auto simp: prefix2 in_order_def step_rank_simps)
  next
    case (Inr u)
    with n1 have e1: "events w1 = events w @ [Run ENSURE_COMMAND, Run FETCH_COMMAND]" by simp
    obtain r2 w2 where 2: "sniffer_decide_and_mutate enable name str w1 = (r2, w2)"
      by (cases "sniffer_decide_and_mutate enable name str w1")
    from decide_events_any[OF 2] obtain n2 where
      n2: "events w2 = events w1 @ n2"
      "n2 = [Opened TMP_SNIFFER_CONF_FILE ''r''] \<or>
       n2 = [Opened TMP_SNIFFER_CONF_FILE ''r'', Opened TMP_SNIFFER_CONF_FILE ''a''] \<or>
       n2 = [Opened TMP_SNIFFER_CONF_FILE ''r'', Opened TMP_SNIFFER_CONF_FILE ''r+'']"
      by blast
    show ?thesis
    proof (cases r2)
      case (Inl e)
      with run 1 2 Inr have "w' = w2" by (simp add: sniffer_env_variable_set_def)
      with n2 e1 show ?thesis
        by (auto simp: in_order_def step_rank_simps)
    next
      case ign: (Inr ignore)
      with run 1 2 Inr have 3: "sniffer_publish_and_clean en ignore w2 = (r, w')"
        by (simp add: sniffer_env_variable_set_def)
      from publish_events_any[OF 3] obtain n3 where
        n3: "events w' = events w2 @ n3"
        "if ignore then n3 = [Run CLEANUP_COMMAND]
         else prefix n3 [Run PUBLISH_COMMAND, Run CLEANUP_COMMAND]"
        by blast
      from n3(2) have "n3 = [] \<or> n3 = [Run CLEANUP_COMMAND] \<or> n3 = [Run PUBLISH_COMMAND]
          \<or> n3 = [Run PUBLISH_COMMAND, Run CLEANUP_COMMAND]"
        by (auto simp: prefix2 split: if_splits)
      with n3(1) n2 e1 show ?thesis
        by (auto simp: in_order_def step_rank_simps)
    qed
  qed
qed

lemma restart_events: "events (snd (restart_swss en w)) = events w @ [Run COMMAND_RESTART_SWSS]"
  using restart_swss_ok(3)[of en w "fst (restart_swss en w)" "snd (restart_swss en w)"]
  by simp

lemma filename_events_any:
  assumes "sniffer_filename_generate en SDK_SNIFFER_TARGET_PATH p e w = (r, w')"
  shows "events w' = events w \<or> events w' = events w @ [Makedirs SDK_SNIFFER_TARGET_PATH]"
  using assms
  by (auto simp: sniffer_filename_generate_def record_event_simps
      split: if_splits option.splits)

lemma in_order_three:
  assumes "a = [] \<or> a = [Makedirs SDK_SNIFFER_TARGET_PATH]"
    and "in_order n" and "\<forall>e \<in> set n. 1 \<le> step_rank e \<and> step_rank e \<le> 6"
    and "b = [] \<or> b = [Run COMMAND_RESTART_SWSS]"
  shows "in_order (a @ n @ b)"
  using assms
  by (fastforce simp: in_order_def sorted_wrt_append step_rank_simps)

lemma enable_in_order:
  "\<exists>n. events (snd (sdk_sniffer_enable en w)) = events w @ n \<and> in_order n"
proof -
  obtain r1 w1 where 1: "sniffer_filename_generate en SDK_SNIFFER_TARGET_PATH
      SDK_SNIFFER_FILENAME_PREFIX SDK_SNIFFER_FILENAME_EXT w = (r1, w1)"
    by (cases "sniffer_filename_generate en SDK_SNIFFER_TARGET_PATH
      SDK_SNIFFER_FILENAME_PREFIX SDK_SNIFFER_FILENAME_EXT w")
  from filename_events_any[OF 1] obtain a where
    a: "events w1 = events w @ a" "a = [] \<or> a = [Makedirs SDK_SNIFFER_TARGET_PATH]"
    by auto
  show ?thesis
  proof (cases r1)
    case (Inl e)
    with 1 have "snd (sdk_sniffer_enable en w) = w1" by (simp add: sdk_sniffer_enable_def)
    with a in_order_three[of a "[]" "[]"] show ?thesis by (auto simp: in_order_def)
  next
    case (Inr f)
    obtain r2 w2 where 2: "sniffer_env_variable_set en True ENV_VARIABLE_SX_SNIFFER
        (sdk_sniffer_env_variable_string (sdk_sniffer_env_variable_dict f)) w1 = (r2, w2)"
      by (cases "sniffer_env_variable_set en True ENV_VARIABLE_SX_SNIFFER
        (sdk_sniffer_env_variable_string (sdk_sniffer_env_variable_dict f)) w1")
    from set_in_order[OF 2] obtain n where
      n: "events w2 = events w1 @ n" "in_order n"
      "\<forall>e \<in> set n. 1 \<le> step_rank e \<and> step_rank e \<le> 6" by blast
    have "snd (sdk_sniffer_enable en w) = w2 \<or>
          events (snd (sdk_sniffer_enable en w)) = events (snd (restart_swss en w2))"
      using 1 Inr 2
      by (auto simp: sdk_sniffer_enable_def echo_simps split: sum.splits prod.splits if_splits)
    then obtain b where b: "events (snd (sdk_sniffer_enable en w)) = events w2 @ b"
      "b = [] \<or> b = [Run COMMAND_RESTART_SWSS]"
      by (auto simp: restart_events)
    from in_order_three[OF a(2) n(2) n(3) b(2)] a(1) n(1) b(1) show ?thesis by simp
  qed
qed

lemma disable_in_order:
  "\<exists>n. events (snd (sdk_sniffer_disable en w)) = events w @ n \<and> in_order n"
proof -
  obtain r2 w2 where 2: "sniffer_env_variable_set en False ENV_VARIABLE_SX_SNIFFER [] w = (r2, w2)"
    by (cases "sniffer_env_variable_set en False ENV_VARIABLE_SX_SNIFFER [] w")
  from set_in_order[OF 2] obtain n where
    n: "events w2 = events w @ n" "in_order n"
    "\<forall>e \<in> set n. 1 \<le> step_rank e \<and> step_rank e \<le> 6" by blast
  have "snd (sdk_sniffer_disable en w) = w2 \<or>
        events (snd (sdk_sniffer_disable en w)) = events (snd (restart_swss en w2))"
    using 2
    by (auto simp: sdk_sniffer_disable_def echo_simps split: sum.splits prod.splits if_splits)
  then obtain b where b: "events (snd (sdk_sniffer_disable en w)) = events w2 @ b"
    "b = [] \<or> b = [Run COMMAND_RESTART_SWSS]"
    by (auto simp: restart_events)
  from in_order_three[of "[]", OF _ n(2) n(3) b(2)] n(1) b(1) show ?thesis by simp
qed

section \<open>Traces of complete runs, and presence of the directive\<close>

lemma enable_trace:
  assumes "sdk_sniffer_enable en w = (Inr u, w')"
  shows "events w' = events w @
           (if SDK_SNIFFER_TARGET_PATH \<in> dirs w then [] else [Makedirs SDK_SNIFFER_TARGET_PATH]) @
           [Run ENSURE_COMMAND, Run FETCH_COMMAND, Opened TMP_SNIFFER_CONF_FILE ''r''] @
           (if directive_present ENV_VARIABLE_SX_SNIFFER (remote_fragment w) then []
            else [Opened TMP_SNIFFER_CONF_FILE ''a'', Run PUBLISH_COMMAND]) @
           [Run CLEANUP_COMMAND] @
           (if directive_present ENV_VARIABLE_SX_SNIFFER (remote_fragment w) then []
            else [Run COMMAND_RESTART_SWSS])"
    and "stdout w' = stdout w @
           (if directive_present ENV_VARIABLE_SX_SNIFFER (remote_fragment w)
            then [''sniffer is already enabled, do nothing'']
            else (case command_error en COMMAND_RESTART_SWSS of
                    None \<Rightarrow> [''SDK sniffer is Enabled, recording file is ''
                               @ sdk_sniffer_filename en @ ''.'']
                  | Some m \<Rightarrow> [''Not able to restart swss service, '' @ m]))"
    and "syslog w' = syslog w @
           (if directive_present ENV_VARIABLE_SX_SNIFFER (remote_fragment w) then []
            else (case command_error en COMMAND_RESTART_SWSS of
                    None \<Rightarrow> []
                  | Some m \<Rightarrow> [''Not able to restart swss service, '' @ m]))"
proof -
  from assms obtain w1 w2 ignore err w3 where
    1: "sniffer_filename_generate en SDK_SNIFFER_TARGET_PATH SDK_SNIFFER_FILENAME_PREFIX
       SDK_SNIFFER_FILENAME_EXT w = (Inr (sdk_sniffer_filename en), w1)" and
    2: "sniffer_env_variable_set en True ENV_VARIABLE_SX_SNIFFER (enable_directive en) w1
       = (Inr ignore, w2)" and
    3: "restart_swss en w2 = (err, w3)" and
    4: "w' = (if ignore then w2
           else if err \<noteq> 0 then w3
           else echo (''SDK sniffer is Enabled, recording file is ''
                      @ sdk_sniffer_filename en @ ''.'') w3)"
    by (rule enable_split)
  note g = filename_generate_ok[OF 1]
  have rf: "remote_fragment w1 = remote_fragment w" by (simp add: remote_fragment_def g(2))
  note s = set_ok[OF 2, unfolded rf]
  note r = restart_swss_ok[OF 3]
  show "events w' = events w @
           (if SDK_SNIFFER_TARGET_PATH \<in> dirs w then [] else [Makedirs SDK_SNIFFER_TARGET_PATH]) @
           [Run ENSURE_COMMAND, Run FETCH_COMMAND, Opened TMP_SNIFFER_CONF_FILE ''r''] @
           (if directive_present ENV_VARIABLE_SX_SNIFFER (remote_fragment w) then []
            else [Opened TMP_SNIFFER_CONF_FILE ''a'', Run PUBLISH_COMMAND]) @
           [Run CLEANUP_COMMAND] @
           (if directive_present ENV_VARIABLE_SX_SNIFFER (remote_fragment w) then []
            else [Run COMMAND_RESTART_SWSS])"
    using 4 s(1) s(3) g(6) r(3) by (simp add: echo_simps)
  show "stdout w' = stdout w @
           (if directive_present ENV_VARIABLE_SX_SNIFFER (remote_fragment w)
            then [''sniffer is already enabled, do nothing'']
            else (case command_error en COMMAND_RESTART_SWSS of
                    None \<Rightarrow> [''SDK sniffer is Enabled, recording file is ''
                               @ sdk_sniffer_filename en @ ''.'']
                  | Some m \<Rightarrow> [''Not able to restart swss service, '' @ m]))"
    using 4 s(1) s(4) g(3) r(4) r(6) by (simp add: echo_simps split: option.splits)
  show "syslog w' = syslog w @
           (if directive_present ENV_VARIABLE_SX_SNIFFER (remote_fragment w) then []
            else (case command_error en COMMAND_RESTART_SWSS of
                    None \<Rightarrow> []
                  | Some m \<Rightarrow> [''Not able to restart swss service, '' @ m]))"
    using 4 s(1) s(6) g(4) r(4) r(5) by (simp add: echo_simps split: option.splits)
qed

lemma disable_trace:
  assumes "sdk_sniffer_disable en w = (Inr u, w')"
  shows "events w' = events w @
           [Run ENSURE_COMMAND, Run FETCH_COMMAND, Opened TMP_SNIFFER_CONF_FILE ''r''] @
           (if directive_present ENV_VARIABLE_SX_SNIFFER (remote_fragment w)
            then [Opened TMP_SNIFFER_CONF_FILE ''r+'', Run PUBLISH_COMMAND] else []) @
           [Run CLEANUP_COMMAND] @
           (if directive_present ENV_VARIABLE_SX_SNIFFER (remote_fragment w)
            then [Run COMMAND_RESTART_SWSS] else [])"
    and "stdout w' = stdout w @
           (if directive_present ENV_VARIABLE_SX_SNIFFER (remote_fragment w)
            then (case command_error en COMMAND_RESTART_SWSS of
                    None \<Rightarrow> [''SDK sniffer is Disabled.'']
                  | Some m \<Rightarrow> [''Not able to restart swss service, '' @ m])
            else [''sniffer is already disabled, do nothing''])"
    and "syslog w' = syslog w @
           (if directive_present ENV_VARIABLE_SX_SNIFFER (remote_fragment w)
            then (case command_error en COMMAND_RESTART_SWSS of
                    None \<Rightarrow> []
                  | Some m \<Rightarrow> [''Not able to restart swss service, '' @ m])
            else [])"
proof -
  from assms obtain w2 ignore err w3 where
    2: "sniffer_env_variable_set en False ENV_VARIABLE_SX_SNIFFER [] w = (Inr ignore, w2)" and
    3: "restart_swss en w2 = (err, w3)" and
    4: "w' = (if ignore then w2
           else if err \<noteq> 0 then w3
           else echo ''SDK sniffer is Disabled.'' w3)"
    by (rule disable_split)
  note s = set_ok[OF 2]
  note r = restart_swss_ok[OF 3]
  show "events w' = events w @
           [Run ENSURE_COMMAND, Run FETCH_COMMAND, Opened TMP_SNIFFER_CONF_FILE ''r''] @
           (if directive_present ENV_VARIABLE_SX_SNIFFER (remote_fragment w)
            then [Opened TMP_SNIFFER_CONF_FILE ''r+'', Run PUBLISH_COMMAND] else []) @
           [Run CLEANUP_COMMAND] @
           (if directive_present ENV_VARIABLE_SX_SNIFFER (remote_fragment w)
            then [Run COMMAND_RESTART_SWSS] else [])"
    using 4 s(1) s(3) r(3) by (simp add: echo_simps)
  show "stdout w' = stdout w @
           (if directive_present ENV_VARIABLE_SX_SNIFFER (remote_fragment w)
            then (case command_error en COMMAND_RESTART_SWSS of
                    None \<Rightarrow> [''SDK sniffer is Disabled.'']
                  | Some m \<Rightarrow> [''Not able to restart swss service, '' @ m])
            else [''sniffer is already disabled, do nothing''])"
    using 4 s(1) s(4) r(4) r(6) by (simp add: echo_simps split: option.splits)
  show "syslog w' = syslog w @
           (if directive_present ENV_VARIABLE_SX_SNIFFER (remote_fragment w)
            then (case command_error en COMMAND_RESTART_SWSS of
                    None \<Rightarrow> []
                  | Some m \<Rightarrow> [''Not able to restart swss service, '' @ m])
            else [])"
    using 4 s(1) s(6) r(4) r(5) by (simp add: echo_simps split: option.splits)
qed











section \<open>Runs that return\<close>

lemma run_command_ok:
  assumes "command_error en c = None" and "command_effect c (record_event (Run c) w) = Some w2"
  shows "run_command en c w = (Inr (), w2)"
  using assms by (simp add: run_command_def Let_def)

lemma receive_returns:
  assumes "command_error en ENSURE_COMMAND = None" and "command_error en FETCH_COMMAND = None"
  shows "\<exists>w'. conf_file_receive en w = (Inr (), w')"
proof -
  let ?w0 = "record_event (Run ENSURE_COMMAND) w"
  let ?w1 = "?w0\<lparr>files := (files ?w0)(SNIFFER_CONF_FILE_IN_CONTAINER \<mapsto> remote_fragment ?w0)\<rparr>"
  have 1: "run_command en ENSURE_COMMAND w = (Inr (), ?w1)"
    by (rule run_command_ok[OF assms(1)]) (rule ensure_effect)
  let ?w2 = "record_event (Run FETCH_COMMAND) ?w1"
  have "files ?w2 SNIFFER_CONF_FILE_IN_CONTAINER = Some (remote_fragment ?w0)"
    by (simp add: record_event_simps)
  then have "command_effect FETCH_COMMAND ?w2 =
      Some (?w2\<lparr>files := (files ?w2)(TMP_SNIFFER_CONF_FILE \<mapsto> remote_fragment ?w0)\<rparr>)"
    unfolding FETCH_COMMAND_def copy_effect by simp
  from run_command_ok[OF assms(2) this] 1 show ?thesis
    by (simp add: conf_file_receive_unfold)
qed

lemma set_returns:
  assumes "command_error en ENSURE_COMMAND = None" and "command_error en FETCH_COMMAND = None"
    and "command_error en PUBLISH_COMMAND = None" and "command_error en CLEANUP_COMMAND = None"
  shows "\<exists>ignore w'. sniffer_env_variable_set en enable name str w = (Inr ignore, w')"
proof -
  from receive_returns[OF assms(1,2)] obtain w1 where
    1: "conf_file_receive en w = (Inr (), w1)" by blast
  have st: "files w1 TMP_SNIFFER_CONF_FILE = Some (remote_fragment w)"
    by (simp add: conf_file_receive_ok(1)[OF 1])
  obtain r2 w2 where 2: "sniffer_decide_and_mutate enable name str w1 = (r2, w2)"
    by (cases "sniffer_decide_and_mutate enable name str w1")
  note d = decide_ok[OF st 2]
  define i where "i = (directive_present name (remote_fragment w) = enable)"
  have r2: "r2 = Inr i" by (simp add: d(1) i_def)
  from d(2) st obtain s where s: "files w2 TMP_SNIFFER_CONF_FILE = Some s"
    by (auto split: if_splits)
  have cl: "\<exists>w'. run_command en CLEANUP_COMMAND v = (Inr (), w')" for v
    using run_command_ok[OF assms(4) cleanup_effect] by blast
  have pb: "\<exists>w'. run_command en PUBLISH_COMMAND w2 = (Inr (), w')"
  proof -
    have "files (record_event (Run PUBLISH_COMMAND) w2) TMP_SNIFFER_CONF_FILE = Some s"
      using s by (simp add: record_event_simps)
    then have "\<exists>v. command_effect PUBLISH_COMMAND (record_event (Run PUBLISH_COMMAND) w2) = Some v"
      unfolding PUBLISH_COMMAND_def copy_effect by simp
    with run_command_ok[OF assms(3)] show ?thesis by blast
  qed
  have "\<exists>w'. sniffer_publish_and_clean en i w2 = (Inr i, w')"
  proof (cases i)
    case True
    from cl[of w2] obtain w' where "run_command en CLEANUP_COMMAND w2 = (Inr (), w')" by blast
    with True show ?thesis
      by (simp add: sniffer_publish_and_clean_def CLEANUP_COMMAND_def[symmetric])
  next
    case False
    from pb obtain w3 where p: "run_command en PUBLISH_COMMAND w2 = (Inr (), w3)" by blast
    from cl[of w3] obtain w' where "run_command en CLEANUP_COMMAND w3 = (Inr (), w')" by blast
    with False p show ?thesis
      by (simp add: sniffer_publish_and_clean_def CLEANUP_COMMAND_def[symmetric]
          config_file_send_unfold)
  qed
  with 1 2 r2 show ?thesis by (auto simp: sniffer_env_variable_set_def)
qed

lemma enable_returns:
  assumes "makedirs_error en = None"
    and "command_error en ENSURE_COMMAND = None" and "command_error en FETCH_COMMAND = None"
    and "command_error en PUBLISH_COMMAND = None" and "command_error en CLEANUP_COMMAND = None"
  shows "sdk_sniffer_enable en w = (Inr (), snd (sdk_sniffer_enable en w))"
proof -
  have "\<exists>f w1. sniffer_filename_generate en SDK_SNIFFER_TARGET_PATH
      SDK_SNIFFER_FILENAME_PREFIX SDK_SNIFFER_FILENAME_EXT w = (Inr f, w1)"
    using assms(1) by (simp add: sniffer_filename_generate_def)
  then obtain f w1 where 1: "sniffer_filename_generate en SDK_SNIFFER_TARGET_PATH
      SDK_SNIFFER_FILENAME_PREFIX SDK_SNIFFER_FILENAME_EXT w = (Inr f, w1)"
    by blast
  from set_returns[OF assms(2-5)] obtain ignore w2 where
    2: "sniffer_env_variable_set en True ENV_VARIABLE_SX_SNIFFER
        (sdk_sniffer_env_variable_string (sdk_sniffer_env_variable_dict f)) w1 = (Inr ignore, w2)"
    by blast
  from 1 2 have "fst (sdk_sniffer_enable en w) = Inr ()"
    by (auto simp: sdk_sniffer_enable_def split: prod.splits)
  then show ?thesis by (metis prod.collapse)
qed

lemma disable_returns:
  assumes "command_error en ENSURE_COMMAND = None" and "command_error en FETCH_COMMAND = None"
    and "command_error en PUBLISH_COMMAND = None" and "command_error en CLEANUP_COMMAND = None"
  shows "sdk_sniffer_disable en w = (Inr (), snd (sdk_sniffer_disable en w))"
proof -
  from set_returns[OF assms] obtain ignore w2 where
    2: "sniffer_env_variable_set en False ENV_VARIABLE_SX_SNIFFER [] w = (Inr ignore, w2)"
    by blast
  from 2 have "fst (sdk_sniffer_disable en w) = Inr ()"
    by (auto simp: sdk_sniffer_disable_def split: prod.splits)
  then show ?thesis by (metis prod.collapse)
qed

lemma calm_env_simps:
  "command_error (calm_env ts) c = None" "makedirs_error (calm_env ts) = None"
  "strftime (calm_env ts) = ts"
  by (simp_all add: calm_env_def)

lemma restart_fails_env_simps:
  "command_error (restart_fails_env ts m) COMMAND_RESTART_SWSS = Some m"
  "command_error (restart_fails_env ts m) ENSURE_COMMAND = None"
  "command_error (restart_fails_env ts m) FETCH_COMMAND = None"
  "command_error (restart_fails_env ts m) PUBLISH_COMMAND = None"
  "command_error (restart_fails_env ts m) CLEANUP_COMMAND = None"
  "makedirs_error (restart_fails_env ts m) = None"
  "strftime (restart_fails_env ts m) = ts"
  by (simp_all add: restart_fails_env_def COMMAND_RESTART_SWSS_def ENSURE_COMMAND_def
      FETCH_COMMAND_def PUBLISH_COMMAND_def CLEANUP_COMMAND_def)

lemma world_simps:
  "remote_fragment empty_world = []" "remote_fragment (world_with_fragment c) = c"
  "files (world_with_staging c) TMP_SNIFFER_CONF_FILE = Some c"
  "events empty_world = []" "stdout empty_world = []" "syslog empty_world = []"
  "dirs empty_world = {}"
  "events (world_with_fragment c) = []" "stdout (world_with_fragment c) = []"
  "syslog (world_with_fragment c) = []" "dirs (world_with_fragment c) = {}"
  by (simp_all add: remote_fragment_def empty_world_def world_with_fragment_def
      world_with_staging_def)

lemma remote_after:
  assumes "files w' = (files w)(SNIFFER_CONF_FILE_IN_CONTAINER \<mapsto> x, TMP_SNIFFER_CONF_FILE := None)"
  shows "files w' SNIFFER_CONF_FILE_IN_CONTAINER = Some x" and "remote_fragment w' = x"
    and "files w' TMP_SNIFFER_CONF_FILE = None"
  using assms paths_distinct by (auto simp: remote_fragment_def)





lemma absent_in_empty: "\<not> directive_present name []"
  by (simp add: directive_present_def)


section \<open>The claims\<close>

text \<open>
  C2. Whenever \<open>sdk_sniffer_enable\<close>, \<open>sdk_sniffer_disable\<close> or \<open>sniffer_env_variable_set\<close>
  returns, the staging file does not exist afterwards. A return covers the three outcomes:
  the change was applied, the request was ignored because the fragment was already in the
  desired state, and the restart failed (\<open>restart_swss\<close> catches the failure, so the caller
  still returns).
\<close>

theorem staging_removed_on_return:
  "(sdk_sniffer_enable en w = (Inr (), w') \<longrightarrow> \<not> staging_exists w')
   \<and> (sdk_sniffer_disable en w = (Inr (), w') \<longrightarrow> \<not> staging_exists w')
   \<and> (sniffer_env_variable_set en enable name str w = (Inr ignore, w') \<longrightarrow> \<not> staging_exists w')"
  using enable_files(1)[of en w "()" w'] disable_files(1)[of en w "()" w']
    set_ok(2)[of en enable name str w ignore w']
  by (simp add: staging_exists_def)

theorem staging_removed_on_return_witness:
  "sdk_sniffer_enable (restart_fails_env ''20240101000000'' ''boom'') empty_world
     = (Inr (), snd (sdk_sniffer_enable (restart_fails_env ''20240101000000'' ''boom'') empty_world))
   \<and> \<not> staging_exists
         (snd (sdk_sniffer_enable (restart_fails_env ''20240101000000'' ''boom'') empty_world))"
  using staging_removed_on_return
    [of "restart_fails_env ''20240101000000'' ''boom''" empty_world
        "snd (sdk_sniffer_enable (restart_fails_env ''20240101000000'' ''boom'') empty_world)"]
    enable_returns[of "restart_fails_env ''20240101000000'' ''boom''" empty_world]
  by (simp add: restart_fails_env_simps)





text \<open>
  C7. When the presence of the directive in the fragment already matches the request, a run
  of \<open>sniffer_env_variable_set\<close> that returns has the flag \<open>ignore\<close> set, leaves the content
  of the remote fragment as it was, and consists of the fetch, the read and the cleanup only:
  the staging file is not written, nothing is published. The callers then print the
  notice and do not restart the service. (A fragment that did not exist is created empty by
  the fetch; its content is empty before and after.)
\<close>

theorem no_change_when_already_in_desired_state:
  "(directive_present name (remote_fragment w) = enable
      \<and> sniffer_env_variable_set en enable name str w = (Inr ignore, w')
    \<longrightarrow> ignore \<and> remote_fragment w' = remote_fragment w
        \<and> events w' = events w @ [Run ENSURE_COMMAND, Run FETCH_COMMAND,
             Opened TMP_SNIFFER_CONF_FILE ''r'', Run CLEANUP_COMMAND])
   \<and> (directive_present ENV_VARIABLE_SX_SNIFFER (remote_fragment w)
      \<and> sdk_sniffer_enable en w = (Inr (), w')
    \<longrightarrow> remote_fragment w' = remote_fragment w
        \<and> events w' = events w @
             (if SDK_SNIFFER_TARGET_PATH \<in> dirs w then [] else [Makedirs SDK_SNIFFER_TARGET_PATH]) @
             [Run ENSURE_COMMAND, Run FETCH_COMMAND, Opened TMP_SNIFFER_CONF_FILE ''r'',
              Run CLEANUP_COMMAND]
        \<and> stdout w' = stdout w @ [''sniffer is already enabled, do nothing''])
   \<and> (\<not> directive_present ENV_VARIABLE_SX_SNIFFER (remote_fragment w)
      \<and> sdk_sniffer_disable en w = (Inr (), w')
    \<longrightarrow> remote_fragment w' = remote_fragment w
        \<and> events w' = events w @ [Run ENSURE_COMMAND, Run FETCH_COMMAND,
             Opened TMP_SNIFFER_CONF_FILE ''r'', Run CLEANUP_COMMAND]
        \<and> stdout w' = stdout w @ [''sniffer is already disabled, do nothing''])"
proof (intro conjI impI)
  assume a: "directive_present name (remote_fragment w) = enable
      \<and> sniffer_env_variable_set en enable name str w = (Inr ignore, w')"
  then have run: "sniffer_env_variable_set en enable name str w = (Inr ignore, w')" by simp
  from set_ok(1)[OF run] a show i: "ignore" by simp
  from set_ok(2)[OF run] i show "remote_fragment w' = remote_fragment w"
    by (simp add: remote_after(2))
  from set_ok(3)[OF run] i
  show "events w' = events w @ [Run ENSURE_COMMAND, Run FETCH_COMMAND,
             Opened TMP_SNIFFER_CONF_FILE ''r'', Run CLEANUP_COMMAND]" by simp
next
  assume a: "directive_present ENV_VARIABLE_SX_SNIFFER (remote_fragment w)
      \<and> sdk_sniffer_enable en w = (Inr (), w')"
  then have run: "sdk_sniffer_enable en w = (Inr (), w')" by simp
  from enable_files(1)[OF run] a show "remote_fragment w' = remote_fragment w"
    by (simp add: remote_after(2))
  from enable_trace(1)[OF run] a
  show "events w' = events w @
             (if SDK_SNIFFER_TARGET_PATH \<in> dirs w then [] else [Makedirs SDK_SNIFFER_TARGET_PATH]) @
             [Run ENSURE_COMMAND, Run FETCH_COMMAND, Opened TMP_SNIFFER_CONF_FILE ''r'',
              Run CLEANUP_COMMAND]" by simp
  from enable_trace(2)[OF run] a
  show "stdout w' = stdout w @ [''sniffer is already enabled, do nothing'']" by simp
next
  assume a: "\<not> directive_present ENV_VARIABLE_SX_SNIFFER (remote_fragment w)
      \<and> sdk_sniffer_disable en w = (Inr (), w')"
  then have run: "sdk_sniffer_disable en w = (Inr (), w')" by simp
  from disable_files(1)[OF run] a show "remote_fragment w' = remote_fragment w"
    by (simp add: remote_after(2))
  from disable_trace(1)[OF run] a
  show "events w' = events w @ [Run ENSURE_COMMAND, Run FETCH_COMMAND,
             Opened TMP_SNIFFER_CONF_FILE ''r'', Run CLEANUP_COMMAND]" by simp
  from disable_trace(2)[OF run] a
  show "stdout w' = stdout w @ [''sniffer is already disabled, do nothing'']" by simp
qed

theorem no_change_when_already_in_desired_state_witness:
  "\<not> directive_present ENV_VARIABLE_SX_SNIFFER (remote_fragment empty_world)
   \<and> sdk_sniffer_disable (calm_env []) empty_world
       = (Inr (), snd (sdk_sniffer_disable (calm_env []) empty_world))
   \<and> remote_fragment (snd (sdk_sniffer_disable (calm_env []) empty_world)) = []
   \<and> events (snd (sdk_sniffer_disable (calm_env []) empty_world))
       = [Run ENSURE_COMMAND, Run FETCH_COMMAND, Opened TMP_SNIFFER_CONF_FILE ''r'',
          Run CLEANUP_COMMAND]
   \<and> stdout (snd (sdk_sniffer_disable (calm_env []) empty_world))
       = [''sniffer is already disabled, do nothing'']"
  using no_change_when_already_in_desired_state
    [of ENV_VARIABLE_SX_SNIFFER empty_world False "calm_env []" "[]" True
        "snd (sdk_sniffer_disable (calm_env []) empty_world)"]
    disable_returns[of "calm_env []" empty_world]
  by (simp add: calm_env_simps world_simps directive_present_def)













text \<open>
  C3, as the code has it. The operations of every run of \<open>sdk_sniffer_enable\<close> and of
  \<open>sdk_sniffer_disable\<close>, complete or cut short by an exception, occur in the order: ensure
  and copy into staging (fetch), read (locate), append or rewrite (mutate), copy back
  (publish), removal of the staging file (cleanup), restart. The cleanup is the last
  operation of \<open>sniffer_env_variable_set\<close> and comes before the restart, which the callers
  issue after that function has returned: a run that applies a change ends with publish,
  cleanup, restart.
\<close>

theorem operations_in_protocol_order:
  "(\<exists>n. events (snd (sdk_sniffer_enable en w)) = events w @ n \<and> in_order n)
   \<and> (\<exists>n. events (snd (sdk_sniffer_disable en w)) = events w @ n \<and> in_order n)
   \<and> (\<not> directive_present ENV_VARIABLE_SX_SNIFFER (remote_fragment w)
        \<and> sdk_sniffer_enable en w = (Inr (), w')
      \<longrightarrow> events w' = events w @
            (if SDK_SNIFFER_TARGET_PATH \<in> dirs w then [] else [Makedirs SDK_SNIFFER_TARGET_PATH]) @
            [Run ENSURE_COMMAND, Run FETCH_COMMAND, Opened TMP_SNIFFER_CONF_FILE ''r'',
             Opened TMP_SNIFFER_CONF_FILE ''a'', Run PUBLISH_COMMAND, Run CLEANUP_COMMAND,
             Run COMMAND_RESTART_SWSS])
   \<and> (directive_present ENV_VARIABLE_SX_SNIFFER (remote_fragment w)
        \<and> sdk_sniffer_disable en w = (Inr (), w')
      \<longrightarrow> events w' = events w @
            [Run ENSURE_COMMAND, Run FETCH_COMMAND, Opened TMP_SNIFFER_CONF_FILE ''r'',
             Opened TMP_SNIFFER_CONF_FILE ''r+'', Run PUBLISH_COMMAND, Run CLEANUP_COMMAND,
             Run COMMAND_RESTART_SWSS])"
proof (intro conjI impI)
  show "\<exists>n. events (snd (sdk_sniffer_enable en w)) = events w @ n \<and> in_order n"
    by (rule enable_in_order)
  show "\<exists>n. events (snd (sdk_sniffer_disable en w)) = events w @ n \<and> in_order n"
    by (rule disable_in_order)
next
  assume a: "\<not> directive_present ENV_VARIABLE_SX_SNIFFER (remote_fragment w)
        \<and> sdk_sniffer_enable en w = (Inr (), w')"
  then have run: "sdk_sniffer_enable en w = (Inr (), w')" by simp
  from enable_trace(1)[OF run] a
  show "events w' = events w @
            (if SDK_SNIFFER_TARGET_PATH \<in> dirs w then [] else [Makedirs SDK_SNIFFER_TARGET_PATH]) @
            [Run ENSURE_COMMAND, Run FETCH_COMMAND, Opened TMP_SNIFFER_CONF_FILE ''r'',
             Opened TMP_SNIFFER_CONF_FILE ''a'', Run PUBLISH_COMMAND, Run CLEANUP_COMMAND,
             Run COMMAND_RESTART_SWSS]" by simp
next
  assume a: "directive_present ENV_VARIABLE_SX_SNIFFER (remote_fragment w)
        \<and> sdk_sniffer_disable en w = (Inr (), w')"
  then have run: "sdk_sniffer_disable en w = (Inr (), w')" by simp
  from disable_trace(1)[OF run] a
  show "events w' = events w @
            [Run ENSURE_COMMAND, Run FETCH_COMMAND, Opened TMP_SNIFFER_CONF_FILE ''r'',
             Opened TMP_SNIFFER_CONF_FILE ''r+'', Run PUBLISH_COMMAND, Run CLEANUP_COMMAND,
             Run COMMAND_RESTART_SWSS]" by simp
qed

theorem operations_in_protocol_order_witness:
  "\<not> directive_present ENV_VARIABLE_SX_SNIFFER (remote_fragment empty_world)
   \<and> sdk_sniffer_enable (calm_env ''20240101000000'') empty_world
       = (Inr (), snd (sdk_sniffer_enable (calm_env ''20240101000000'') empty_world))
   \<and> events (snd (sdk_sniffer_enable (calm_env ''20240101000000'') empty_world))
       = [Makedirs SDK_SNIFFER_TARGET_PATH, Run ENSURE_COMMAND, Run FETCH_COMMAND,
          Opened TMP_SNIFFER_CONF_FILE ''r'', Opened TMP_SNIFFER_CONF_FILE ''a'',
          Run PUBLISH_COMMAND, Run CLEANUP_COMMAND, Run COMMAND_RESTART_SWSS]
   \<and> in_order [Makedirs SDK_SNIFFER_TARGET_PATH, Run ENSURE_COMMAND, Run FETCH_COMMAND,
          Opened TMP_SNIFFER_CONF_FILE ''r'', Opened TMP_SNIFFER_CONF_FILE ''a'',
          Run PUBLISH_COMMAND, Run CLEANUP_COMMAND, Run COMMAND_RESTART_SWSS]"
proof -
  let ?e = "calm_env ''20240101000000''"
  let ?w = "snd (sdk_sniffer_enable ?e empty_world)"
  have na: "\<not> directive_present ENV_VARIABLE_SX_SNIFFER (remote_fragment empty_world)"
    by (simp add: world_simps absent_in_empty)
  have ret: "sdk_sniffer_enable ?e empty_world = (Inr (), ?w)"
    by (rule enable_returns) (simp_all add: calm_env_simps)
  note t = operations_in_protocol_order[of ?e empty_world ?w]
  from t na ret have ev: "events ?w = events empty_world @
      (if SDK_SNIFFER_TARGET_PATH \<in> dirs empty_world then []
       else [Makedirs SDK_SNIFFER_TARGET_PATH]) @
      [Run ENSURE_COMMAND, Run FETCH_COMMAND, Opened TMP_SNIFFER_CONF_FILE ''r'',
       Opened TMP_SNIFFER_CONF_FILE ''a'', Run PUBLISH_COMMAND, Run CLEANUP_COMMAND,
       Run COMMAND_RESTART_SWSS]" by blast
  then have ev': "events ?w = [Makedirs SDK_SNIFFER_TARGET_PATH, Run ENSURE_COMMAND,
      Run FETCH_COMMAND, Opened TMP_SNIFFER_CONF_FILE ''r'', Opened TMP_SNIFFER_CONF_FILE ''a'',
      Run PUBLISH_COMMAND, Run CLEANUP_COMMAND, Run COMMAND_RESTART_SWSS]"
    by (simp add: world_simps)
  from t obtain n where "events ?w = events empty_world @ n" "in_order n" by blast
  with ev' have "in_order [Makedirs SDK_SNIFFER_TARGET_PATH, Run ENSURE_COMMAND,
      Run FETCH_COMMAND, Opened TMP_SNIFFER_CONF_FILE ''r'', Opened TMP_SNIFFER_CONF_FILE ''a'',
      Run PUBLISH_COMMAND, Run CLEANUP_COMMAND, Run COMMAND_RESTART_SWSS]"
    by (simp add: world_simps)
  with na ret ev' show ?thesis by blast
qed

text \<open>
  C3, as the claim states it, fails: in a run of \<open>sdk_sniffer_enable\<close> on an empty world in
  which no command fails, the removal of the staging file is the seventh operation and the
  restart the eighth and last one; the cleanup is not the last step and does not come after
  the restart.
\<close>

theorem cleanup_precedes_restart:
  "events (snd (sdk_sniffer_enable (calm_env ''20240101000000'') empty_world))
     = [Makedirs SDK_SNIFFER_TARGET_PATH, Run ENSURE_COMMAND, Run FETCH_COMMAND,
        Opened TMP_SNIFFER_CONF_FILE ''r'', Opened TMP_SNIFFER_CONF_FILE ''a'',
        Run PUBLISH_COMMAND, Run [''rm'', ''-rf'', TMP_SNIFFER_CONF_FILE],
        Run [''systemctl'', ''restart'', ''swss.service'']]
   \<and> last (events (snd (sdk_sniffer_enable (calm_env ''20240101000000'') empty_world)))
     \<noteq> Run [''rm'', ''-rf'', TMP_SNIFFER_CONF_FILE]"
proof -
  let ?e = "calm_env ''20240101000000''"
  let ?w = "snd (sdk_sniffer_enable ?e empty_world)"
  have ret: "sdk_sniffer_enable ?e empty_world = (Inr (), ?w)"
    by (rule enable_returns) (simp_all add: calm_env_simps)
  from enable_trace(1)[OF ret]
  have "events ?w = [Makedirs SDK_SNIFFER_TARGET_PATH, Run ENSURE_COMMAND,
      Run FETCH_COMMAND, Opened TMP_SNIFFER_CONF_FILE ''r'', Opened TMP_SNIFFER_CONF_FILE ''a'',
      Run PUBLISH_COMMAND, Run CLEANUP_COMMAND, Run COMMAND_RESTART_SWSS]"
    by (simp add: world_simps absent_in_empty)
  then show ?thesis by (simp add: CLEANUP_COMMAND_def COMMAND_RESTART_SWSS_def)
qed

end
